theory Spec2Isabelle
  imports Complex_Main "HOL-Library.AList" "HOL-Library.Log_Nat"
begin

section \<open>The Python values the checker handles\<close>

text \<open>
  The program is \<^verbatim>\<open>src/checker.py\<close>: \<^verbatim>\<open>check_stx_balances\<close> (lines 6 to 104),
  \<^verbatim>\<open>main\<close> (lines 106 to 143) and the module's last statement (lines 145 and 146).

  A Python \<^verbatim>\<open>str\<close> is a \<open>string\<close>; a character is read as the code point of the
  same number, so the model covers the strings whose code points are below 256.
  Python's \<^verbatim>\<open>int\<close> is \<open>int\<close>. The exceptions are the subclasses of
  \<^verbatim>\<open>Exception\<close> that the code and the libraries it calls raise; \<open>RequestError\<close>
  stands for what \<^verbatim>\<open>requests.get\<close> raises (connection errors, timeouts). What is
  no \<^verbatim>\<open>Exception\<close> (a keyboard interrupt, the exit of the interpreter) is not
  modelled: \<^verbatim>\<open>except Exception\<close> would not catch it.
\<close>

datatype exc =
    RequestError
  | JSONDecodeError
  | AttributeError
  | TypeError
  | ValueError
  | OverflowError
  | ZeroDivisionError
  | FileNotFoundError
  | OSError
  | UnicodeDecodeError
  | RecursionError
  | NameError

text \<open>
  A Python \<^verbatim>\<open>float\<close> is an IEEE 754 binary64 value: a finite one is the rational
  it denotes (both zeros are \<open>Finite 0\<close>: they compare equal).
\<close>

datatype pyfloat = Finite rat | PosInf | NegInf | NaN

text \<open>The comparison \<^verbatim>\<open>a > b\<close> of two floats; every comparison with NaN is false.\<close>

fun py_gt :: "pyfloat \<Rightarrow> pyfloat \<Rightarrow> bool" where
  "py_gt NaN b = False"
| "py_gt a NaN = False"
| "py_gt (Finite x) (Finite y) = (y < x)"
| "py_gt (Finite x) PosInf = False"
| "py_gt (Finite x) NegInf = True"
| "py_gt PosInf PosInf = False"
| "py_gt PosInf b = True"
| "py_gt NegInf b = False"

text \<open>
  What \<^verbatim>\<open>response.json()\<close> returns: a JSON object is a \<^verbatim>\<open>dict\<close>, kept as an
  association list that \<open>map_of\<close> reads.
\<close>

datatype json_value =
    JNull
  | JBool bool
  | JInt int
  | JFloat pyfloat
  | JString string
  | JArray "json_value list"
  | JObject "(string \<times> json_value) list"

subsection \<open>Strings\<close>

text \<open>
  \<^verbatim>\<open>str.strip()\<close> removes the characters for which \<^verbatim>\<open>str.isspace\<close> holds from both
  ends: below 256 these are 9 to 13, 28 to 32, 0x85 and 0xA0.
  \<^verbatim>\<open>s.replace(c, '')\<close> for a one-character \<^verbatim>\<open>c\<close> removes every occurrence of it.
\<close>

definition isspace :: "char \<Rightarrow> bool" where
  "isspace c = (of_char c \<in> {9, 10, 11, 12, 13, 28, 29, 30, 31, 32, 133, 160 :: nat})"

definition strip_with :: "(char \<Rightarrow> bool) \<Rightarrow> string \<Rightarrow> string" where
  "strip_with p s = rev (dropWhile p (rev (dropWhile p s)))"

definition strip :: "string \<Rightarrow> string" where
  "strip s = strip_with isspace s"

definition replace_char :: "char \<Rightarrow> string \<Rightarrow> string" where
  "replace_char c s = filter (\<lambda>x. x \<noteq> c) s"

definition startswith :: "string \<Rightarrow> string \<Rightarrow> bool" where
  "startswith s p = (take (length p) s = p)"

subsection \<open>\<^verbatim>\<open>int(...)\<close>\<close>

text \<open>
  \<^verbatim>\<open>int(s)\<close> and \<^verbatim>\<open>int(s, 16)\<close> on a string, as CPython's \<^verbatim>\<open>PyLong_FromString\<close>
  reads it: white space around the literal is dropped (for \<^verbatim>\<open>int\<close> the characters
  9 to 13, 32, 0x85 and 0xA0), one sign may lead, base 16 accepts the prefix
  \<^verbatim>\<open>0x\<close> or \<^verbatim>\<open>0X\<close> and one underscore after it, and the digits may be separated by
  single underscores. A literal with no digit, a leading, trailing or doubled
  underscore, or a character that is no digit of the base raises
  \<^verbatim>\<open>ValueError\<close>; so does a literal of more than 4300 digits in a base that is no
  power of two (the interpreter's default limit).
\<close>

definition int_isspace :: "char \<Rightarrow> bool" where
  "int_isspace c = (of_char c \<in> {9, 10, 11, 12, 13, 32, 133, 160 :: nat})"

definition digit_value :: "char \<Rightarrow> nat option" where
  "digit_value c =
     (let n = of_char c :: nat in
      if 48 \<le> n \<and> n \<le> 57 then Some (n - 48)
      else if 97 \<le> n \<and> n \<le> 122 then Some (n - 87)
      else if 65 \<le> n \<and> n \<le> 90 then Some (n - 55)
      else None)"

fun scan_digits :: "nat \<Rightarrow> char \<Rightarrow> string \<Rightarrow> nat list option" where
  "scan_digits base prev [] = (if prev = CHR ''_'' then None else Some [])"
| "scan_digits base prev (c # cs) =
     (if c = CHR ''_'' then
        (if prev = CHR ''_'' then None else scan_digits base c cs)
      else
        (case digit_value c of
           None \<Rightarrow> None
         | Some d \<Rightarrow>
             if d < base then map_option ((#) d) (scan_digits base c cs) else None))"

definition digits_value :: "nat \<Rightarrow> nat list \<Rightarrow> int" where
  "digits_value base ds = foldl (\<lambda>a d. a * int base + int d) 0 ds"

definition int_max_str_digits :: nat where
  "int_max_str_digits = 4300"

definition int_of_str :: "string \<Rightarrow> nat \<Rightarrow> exc + int" where
  "int_of_str s base =
     (let t = strip_with int_isspace s;
          negative = (take 1 t = ''-'');
          u = (if take 1 t = ''+'' \<or> take 1 t = ''-'' then drop 1 t else t);
          v = (if base = 16 \<and> (take 2 u = ''0x'' \<or> take 2 u = ''0X'')
               then (if take 1 (drop 2 u) = ''_'' then drop 3 u else drop 2 u)
               else u)
      in if v = [] \<or> take 1 v = ''_'' then Inl ValueError
         else
           (case scan_digits base (CHR ''0'') v of
              None \<Rightarrow> Inl ValueError
            | Some ds \<Rightarrow>
                if base \<notin> {2, 4, 8, 16, 32} \<and> int_max_str_digits < length ds
                then Inl ValueError
                else Inr ((if negative then - 1 else 1) * digits_value base ds)))"

text \<open>
  \<^verbatim>\<open>int(x)\<close> on a decoded JSON value: a string is parsed in base 10, an integer is
  itself, a Boolean is 0 or 1, a float is truncated towards zero (an infinity
  raises \<^verbatim>\<open>OverflowError\<close>, NaN raises \<^verbatim>\<open>ValueError\<close>), and \<^verbatim>\<open>None\<close>, a list and a
  dict raise \<^verbatim>\<open>TypeError\<close>.
\<close>

fun py_int :: "json_value \<Rightarrow> exc + int" where
  "py_int (JString s) = int_of_str s 10"
| "py_int (JInt n) = Inr n"
| "py_int (JBool b) = Inr (if b then 1 else 0)"
| "py_int (JFloat (Finite x)) = Inr (if 0 \<le> x then \<lfloor>x\<rfloor> else \<lceil>x\<rceil>)"
| "py_int (JFloat NaN) = Inl ValueError"
| "py_int (JFloat PosInf) = Inl OverflowError"
| "py_int (JFloat NegInf) = Inl OverflowError"
| "py_int JNull = Inl TypeError"
| "py_int (JArray xs) = Inl TypeError"
| "py_int (JObject kvs) = Inl TypeError"

subsection \<open>\<^verbatim>\<open>a / b\<close> on integers\<close>

text \<open>
  True division of two integers gives the binary64 value nearest to the exact
  quotient (ties to the even significand), and raises \<^verbatim>\<open>OverflowError\<close> when
  that value would be \<open>2 ^ 1024\<close> or more in magnitude, \<^verbatim>\<open>ZeroDivisionError\<close> when
  the divisor is 0. As in CPython, the work is done on the absolute values, as
  integers: for positive \<open>n\<close> and \<open>d\<close>, \<open>e\<close> is the exponent with
  \<open>2 ^ e \<le> n / d < 2 ^ (e + 1)\<close>, found from the bit lengths (\<open>bitlen\<close> is
  \<^verbatim>\<open>int.bit_length\<close>) and not below \<open>- 1022\<close>, where the subnormal numbers begin; the
  quotient is scaled by \<open>2 ^ (52 - e)\<close> and rounded to the integer \<open>m\<close> of at most 53
  bits, and the magnitude of the result is \<open>m * 2 ^ (e - 52)\<close>.
\<close>

definition round_div :: "int \<Rightarrow> int \<Rightarrow> int" where
  "round_div n d =
     (let q = n div d; r = n mod d
      in if 2 * r < d then q
         else if d < 2 * r then q + 1
         else if even q then q else q + 1)"

definition nearest_double :: "int \<Rightarrow> int \<Rightarrow> rat option" where
  "nearest_double n d =
     (let k = bitlen n - bitlen d;
          e = max (if (if 0 \<le> k then d * 2 ^ nat k \<le> n else d \<le> n * 2 ^ nat (- k))
                   then k else k - 1) (- 1022);
          s = e - 52;
          num = (if 0 \<le> s then 2 ^ nat s else 1);
          den = (if 0 \<le> s then 1 else 2 ^ nat (- s));
          m = round_div (n * den) (d * num)
      in if 2 ^ 1024 * den \<le> m * num then None
         else Some (of_int (m * num) / of_int den))"

definition true_div :: "int \<Rightarrow> int \<Rightarrow> exc + pyfloat" where
  "true_div a b =
     (if b = 0 then Inl ZeroDivisionError
      else if a = 0 then Inr (Finite 0)
      else
        (case nearest_double \<bar>a\<bar> \<bar>b\<bar> of
           None \<Rightarrow> Inl OverflowError
         | Some y \<Rightarrow> Inr (Finite (if (a < 0) = (b < 0) then y else - y))))"

section \<open>The balance checker\<close>

text \<open>
  The record stored under a name (the \<^verbatim>\<open>dict\<close> with the keys \<^verbatim>\<open>"address"\<close> and
  \<^verbatim>\<open>"balance"\<close>), and the result \<^verbatim>\<open>dict\<close> as an association list in insertion
  order: \<open>AList.update\<close> is \<^verbatim>\<open>d[k] = v\<close>.
\<close>

record balance_record =
  address_of :: string
  balance_of :: pyfloat

text \<open>
  What the program does to the outside, in order: the requests it issues, the lines
  it prints (one constructor per \<^verbatim>\<open>print\<close> call, holding the values the line
  formats), the pauses, and the file it writes.
\<close>

datatype message =
    Checking nat pyfloat
  | NameBalance string string pyfloat
  | NameBalanceFallback string string pyfloat
  | FoundQualifying string string pyfloat
  | FailedToGet string string int
  | ProcessedSoFar nat
  | ErrorProcessing string string exc
  | FoundCount nat pyfloat
  | FileNotFoundMessage
  | PleaseCreateMessage
  | InvalidJSONMessage
  | LoadedPairs nat
  | SampleHeader
  | SampleItem string string
  | ResultsSaved
  | QualifyingHeader
  | QualifyingLine string string pyfloat
  | NoneFound

datatype event =
    HttpGet string
  | Print message
  | Sleep nat
  | WriteJson string "(string \<times> balance_record) list" nat

text \<open>
  \<^verbatim>\<open>requests.get(url)\<close> either raises or returns a response, whose \<^verbatim>\<open>json()\<close> in turn
  raises or returns the decoded body. The network is a parameter
  \<open>requests_get\<close>: it answers a request in a state \<open>'w\<close> of the outside world and
  gives the next state, so two requests for one URL may be answered differently.
\<close>

record response =
  status_code :: int
  json :: "exc + json_value"

datatype http_result = Raises exc | Returns response

record 'w step =
  world :: 'w
  qualifying_addresses :: "(string \<times> balance_record) list"
  events :: "event list"

definition base_url :: string where
  "base_url = ''https://stacks-node-api.mainnet.stacks.co/extended/v1/address/''"

definition fallback_base :: string where
  "fallback_base = ''https://stacks-node-api.mainnet.stacks.co/v2/accounts/''"

text \<open>Line 28: \<^verbatim>\<open>address.strip().replace('"', '').replace("'", '')\<close>.\<close>

definition clean_address :: "string \<Rightarrow> string" where
  "clean_address address = replace_char (CHR 0x27) (replace_char (CHR 0x22) (strip address))"

text \<open>\<^verbatim>\<open>data.get(key, default)\<close>: only a \<^verbatim>\<open>dict\<close> has the method.\<close>

fun dict_get :: "json_value \<Rightarrow> string \<Rightarrow> json_value \<Rightarrow> exc + json_value" where
  "dict_get (JObject kvs) key dflt =
     Inr (case map_of kvs key of None \<Rightarrow> dflt | Some v \<Rightarrow> v)"
| "dict_get other key dflt = Inl AttributeError"

text \<open>
  Lines 41 to 51, from \<^verbatim>\<open>data\<close> to \<^verbatim>\<open>balance_stx\<close>. The test
  \<^verbatim>\<open>isinstance(balance_str, str) and balance_str.startswith('0x')\<close> is the case
  distinction on the value.
\<close>

definition primary_balance_stx :: "json_value \<Rightarrow> exc + pyfloat" where
  "primary_balance_stx data =
     (case dict_get data ''balance'' (JString ''0'') of
        Inl e \<Rightarrow> Inl e
      | Inr balance_str \<Rightarrow>
          (case (case balance_str of
                   JString s \<Rightarrow>
                     if startswith s ''0x'' then int_of_str s 16 else py_int balance_str
                 | other \<Rightarrow> py_int balance_str) of
             Inl e \<Rightarrow> Inl e
           | Inr balance_micro_stx \<Rightarrow> true_div balance_micro_stx 1000000))"

text \<open>Lines 71 to 81, from \<^verbatim>\<open>fallback_data\<close> to \<^verbatim>\<open>balance_stx\<close>.\<close>

definition fallback_balance_stx :: "json_value \<Rightarrow> exc + pyfloat" where
  "fallback_balance_stx fallback_data =
     (case dict_get fallback_data ''balance'' (JString ''0'') of
        Inl e \<Rightarrow> Inl e
      | Inr balance_str \<Rightarrow>
          (case (case balance_str of
                   JString s \<Rightarrow>
                     if startswith s ''0x'' then int_of_str s 16 else py_int balance_str
                 | other \<Rightarrow> py_int balance_str) of
             Inl e \<Rightarrow> Inl e
           | Inr balance_micro_stx \<Rightarrow> true_div balance_micro_stx 1000000))"

text \<open>Lines 95 to 97, the last statements of the \<^verbatim>\<open>try\<close> block.\<close>

definition rate_limit :: "nat \<Rightarrow> event list" where
  "rate_limit i = (if 0 < i \<and> i mod 5 = 0 then [Print (ProcessedSoFar i), Sleep 1] else [])"

text \<open>
  Lines 27 to 97, the body of the \<^verbatim>\<open>try\<close> statement for the entry \<open>(name, address)\<close> at
  index \<open>i\<close>: the exception it raises, if any, and the state it leaves. An
  exception ends the body where it is raised: what was requested and printed before
  stays, what follows does not happen.
\<close>

definition try_body ::
  "('w \<Rightarrow> string \<Rightarrow> http_result \<times> 'w) \<Rightarrow> pyfloat \<Rightarrow> nat \<Rightarrow> string \<Rightarrow> string \<Rightarrow> 'w \<Rightarrow>
   (string \<times> balance_record) list \<Rightarrow> exc option \<times> 'w step" where
  "try_body requests_get min_balance i name address w q =
     (let url = base_url @ clean_address address;
          (got, w1) = requests_get w url
      in case got of
           Raises e \<Rightarrow>
             (Some e, \<lparr>world = w1, qualifying_addresses = q, events = [HttpGet url]\<rparr>)
         | Returns response \<Rightarrow>
             if status_code response = 200 then
               (case json response of
                  Inl e \<Rightarrow>
                    (Some e, \<lparr>world = w1, qualifying_addresses = q, events = [HttpGet url]\<rparr>)
                | Inr data \<Rightarrow>
                    (case primary_balance_stx data of
                       Inl e \<Rightarrow>
                         (Some e,
                          \<lparr>world = w1, qualifying_addresses = q, events = [HttpGet url]\<rparr>)
                     | Inr balance_stx \<Rightarrow>
                         (None,
                          \<lparr>world = w1,
                           qualifying_addresses =
                             (if py_gt balance_stx min_balance
                              then AList.update name
                                     \<lparr>address_of = clean_address address,
                                      balance_of = balance_stx\<rparr> q
                              else q),
                           events =
                             [HttpGet url,
                              Print (NameBalance name (clean_address address) balance_stx)]
                             @ (if py_gt balance_stx min_balance
                                then [Print (FoundQualifying name (clean_address address)
                                               balance_stx)]
                                else [])
                             @ rate_limit i\<rparr>)))
             else
               (let fallback_url = fallback_base @ clean_address address;
                    (fallback_got, w2) = requests_get w1 fallback_url
                in case fallback_got of
                     Raises e \<Rightarrow>
                       (Some e,
                        \<lparr>world = w2, qualifying_addresses = q,
                         events = [HttpGet url, HttpGet fallback_url]\<rparr>)
                   | Returns fallback_response \<Rightarrow>
                       if status_code fallback_response = 200 then
                         (case json fallback_response of
                            Inl e \<Rightarrow>
                              (Some e,
                               \<lparr>world = w2, qualifying_addresses = q,
                                events = [HttpGet url, HttpGet fallback_url]\<rparr>)
                          | Inr fallback_data \<Rightarrow>
                              (case fallback_balance_stx fallback_data of
                                 Inl e \<Rightarrow>
                                   (Some e,
                                    \<lparr>world = w2, qualifying_addresses = q,
                                     events = [HttpGet url, HttpGet fallback_url]\<rparr>)
                               | Inr balance_stx \<Rightarrow>
                                   (None,
                                    \<lparr>world = w2,
                                     qualifying_addresses =
                                       (if py_gt balance_stx min_balance
                                        then AList.update name
                                               \<lparr>address_of = clean_address address,
                                                balance_of = balance_stx\<rparr> q
                                        else q),
                                     events =
                                       [HttpGet url, HttpGet fallback_url,
                                        Print (NameBalanceFallback name (clean_address address)
                                                 balance_stx)]
                                       @ (if py_gt balance_stx min_balance
                                          then [Print (FoundQualifying name
                                                         (clean_address address) balance_stx)]
                                          else [])
                                       @ rate_limit i\<rparr>)))
                       else
                         (None,
                          \<lparr>world = w2, qualifying_addresses = q,
                           events =
                             [HttpGet url, HttpGet fallback_url,
                              Print (FailedToGet name (clean_address address)
                                       (status_code response))]
                             @ rate_limit i\<rparr>)))"

text \<open>
  Lines 26 to 101, one iteration: the \<^verbatim>\<open>try\<close> body, and the handler
  \<^verbatim>\<open>except Exception as e\<close> that prints the error and continues.
\<close>

definition loop_body ::
  "('w \<Rightarrow> string \<Rightarrow> http_result \<times> 'w) \<Rightarrow> pyfloat \<Rightarrow> nat \<Rightarrow> string \<Rightarrow> string \<Rightarrow> 'w \<Rightarrow>
   (string \<times> balance_record) list \<Rightarrow> 'w step" where
  "loop_body requests_get min_balance i name address w q =
     (case try_body requests_get min_balance i name address w q of
        (None, s) \<Rightarrow> s
      | (Some e, s) \<Rightarrow> s\<lparr>events := events s @ [Print (ErrorProcessing name address e)]\<rparr>)"

text \<open>
  Line 25, \<^verbatim>\<open>for i, (name, address) in enumerate(address_dict.items())\<close>: the entries
  in the order of the \<^verbatim>\<open>dict\<close>, from index \<open>i\<close> on.
\<close>

fun loop ::
  "('w \<Rightarrow> string \<Rightarrow> http_result \<times> 'w) \<Rightarrow> pyfloat \<Rightarrow> nat \<Rightarrow> (string \<times> string) list \<Rightarrow> 'w \<Rightarrow>
   (string \<times> balance_record) list \<Rightarrow> 'w step" where
  "loop requests_get min_balance i [] w q =
     \<lparr>world = w, qualifying_addresses = q, events = []\<rparr>"
| "loop requests_get min_balance i ((name, address) # rest) w q =
     (let s = loop_body requests_get min_balance i name address w q;
          r = loop requests_get min_balance (Suc i) rest (world s) (qualifying_addresses s)
      in r\<lparr>events := events s @ events r\<rparr>)"

text \<open>
  \<^verbatim>\<open>check_stx_balances(address_dict, min_balance)\<close>, started in the state \<open>w\<close> of the
  outside world. \<open>address_dict\<close> lists the items of the \<^verbatim>\<open>dict\<close>, so its names are
  distinct.
\<close>

definition check_stx_balances ::
  "('w \<Rightarrow> string \<Rightarrow> http_result \<times> 'w) \<Rightarrow> 'w \<Rightarrow> (string \<times> string) list \<Rightarrow> pyfloat \<Rightarrow> 'w step" where
  "check_stx_balances requests_get w address_dict min_balance =
     (let r = loop requests_get min_balance 0 address_dict w []
      in r\<lparr>events :=
             [Print (Checking (length address_dict) min_balance)]
             @ events r
             @ [Print (FoundCount (length (qualifying_addresses r)) min_balance)]\<rparr>)"

section \<open>The driver\<close>

text \<open>
  \<^verbatim>\<open>main()\<close>, lines 106 to 143. \<open>loaded\<close> is what opening and parsing
  \<^verbatim>\<open>stacks_addresses.json\<close> gives (\<open>load_input\<close>, below): the exception raised, or the
  \<^verbatim>\<open>dict\<close> of names and addresses (a file that holds valid JSON is taken to hold an
  object of strings, the input format). \<open>write_error\<close> is the exception that opening the result file for
  writing raises, if any. The result is the exception that leaves \<^verbatim>\<open>main\<close>, if any,
  the state of the outside world and the events. An exception other than the two
  that \<^verbatim>\<open>main\<close> handles leaves it.
\<close>

text \<open>
  Lines 109 and 110, \<^verbatim>\<open>open('stacks_addresses.json', 'r')\<close> and \<^verbatim>\<open>json.load(file)\<close>, by the
  state of the input file: a file that is absent raises \<^verbatim>\<open>FileNotFoundError\<close>, one
  that cannot be opened another \<^verbatim>\<open>OSError\<close>; bytes that do not decode as text raise
  \<^verbatim>\<open>UnicodeDecodeError\<close>, text that is no JSON document \<^verbatim>\<open>json.JSONDecodeError\<close>, and
  a document nested too deeply for the parser \<^verbatim>\<open>RecursionError\<close>.
\<close>

datatype input_file =
    Absent
  | Unreadable
  | Undecodable
  | Malformed
  | TooDeep
  | Holds "(string \<times> string) list"

fun load_input :: "input_file \<Rightarrow> exc + (string \<times> string) list" where
  "load_input Absent = Inl FileNotFoundError"
| "load_input Unreadable = Inl OSError"
| "load_input Undecodable = Inl UnicodeDecodeError"
| "load_input Malformed = Inl JSONDecodeError"
| "load_input TooDeep = Inl RecursionError"
| "load_input (Holds address_dict) = Inr address_dict"

definition main ::
  "('w \<Rightarrow> string \<Rightarrow> http_result \<times> 'w) \<Rightarrow> 'w \<Rightarrow> exc + (string \<times> string) list \<Rightarrow> exc option \<Rightarrow>
   exc option \<times> 'w \<times> event list" where
  "main requests_get w loaded write_error =
     (case loaded of
        Inl e \<Rightarrow>
          if e = FileNotFoundError
          then (None, w, [Print FileNotFoundMessage, Print PleaseCreateMessage])
          else if e = JSONDecodeError then (None, w, [Print InvalidJSONMessage])
          else (Some e, w, [])
      | Inr address_dict \<Rightarrow>
          (let sample_items =
                 (if 3 < length address_dict then take 3 address_dict else address_dict);
               shown =
                 [Print (LoadedPairs (length address_dict)), Print SampleHeader]
                 @ map (\<lambda>(name, address). Print (SampleItem name address)) sample_items;
               min_balance = Finite 5;
               r = check_stx_balances requests_get w address_dict min_balance
           in case write_error of
                Some e \<Rightarrow> (Some e, world r, shown @ events r)
              | None \<Rightarrow>
                  (None, world r,
                   shown @ events r
                   @ [WriteJson ''qualifying_addresses.json'' (qualifying_addresses r) 2,
                      Print ResultsSaved]
                   @ (if qualifying_addresses r \<noteq> []
                      then Print QualifyingHeader
                           # map (\<lambda>(name, data).
                                    Print (QualifyingLine name (address_of data)
                                             (balance_of data)))
                               (qualifying_addresses r)
                      else [Print NoneFound]))))"

text \<open>
  Lines 145 and 146, the module's last statement: \<^verbatim>\<open>if _name_ == "_main_": main()\<close>.
  A name is looked up in the module's globals (those bound when the statement runs:
  the ones the interpreter sets, the imports and the two functions) and then among
  the built-in names; a name found in neither raises \<^verbatim>\<open>NameError\<close>. Only the value of
  a string matters here.
\<close>

datatype pyval = PyStr string | PyObject

definition module_globals :: "string \<Rightarrow> (string \<times> pyval) list" where
  "module_globals run_name =
     [(''__name__'', PyStr run_name), (''__doc__'', PyObject), (''__package__'', PyObject),
      (''__loader__'', PyObject), (''__spec__'', PyObject), (''__annotations__'', PyObject),
      (''__builtins__'', PyObject), (''__file__'', PyObject), (''__cached__'', PyObject),
      (''requests'', PyObject), (''json'', PyObject), (''time'', PyObject),
      (''Dict'', PyObject), (''Any'', PyObject), (''check_stx_balances'', PyObject),
      (''main'', PyObject)]"

definition builtin_names :: "string list" where
  "builtin_names =
     [''ArithmeticError'', ''AssertionError'', ''AttributeError'', ''BaseException'', ''BaseExceptionGroup'',
      ''BlockingIOError'', ''BrokenPipeError'', ''BufferError'', ''BytesWarning'', ''ChildProcessError'',
      ''ConnectionAbortedError'', ''ConnectionError'', ''ConnectionRefusedError'', ''ConnectionResetError'', ''DeprecationWarning'',
      ''EOFError'', ''Ellipsis'', ''EncodingWarning'', ''EnvironmentError'', ''Exception'',
      ''ExceptionGroup'', ''False'', ''FileExistsError'', ''FileNotFoundError'', ''FloatingPointError'',
      ''FutureWarning'', ''GeneratorExit'', ''IOError'', ''ImportError'', ''ImportWarning'',
      ''IndentationError'', ''IndexError'', ''InterruptedError'', ''IsADirectoryError'', ''KeyError'',
      ''KeyboardInterrupt'', ''LookupError'', ''MemoryError'', ''ModuleNotFoundError'', ''NameError'',
      ''None'', ''NotADirectoryError'', ''NotImplemented'', ''NotImplementedError'', ''OSError'',
      ''OverflowError'', ''PendingDeprecationWarning'', ''PermissionError'', ''ProcessLookupError'', ''RecursionError'',
      ''ReferenceError'', ''ResourceWarning'', ''RuntimeError'', ''RuntimeWarning'', ''StopAsyncIteration'',
      ''StopIteration'', ''SyntaxError'', ''SyntaxWarning'', ''SystemError'', ''SystemExit'',
      ''TabError'', ''TimeoutError'', ''True'', ''TypeError'', ''UnboundLocalError'',
      ''UnicodeDecodeError'', ''UnicodeEncodeError'', ''UnicodeError'', ''UnicodeTranslateError'', ''UnicodeWarning'',
      ''UserWarning'', ''ValueError'', ''Warning'', ''ZeroDivisionError'', ''__build_class__'',
      ''__debug__'', ''__doc__'', ''__import__'', ''__loader__'', ''__name__'',
      ''__package__'', ''__spec__'', ''abs'', ''aiter'', ''all'',
      ''anext'', ''any'', ''ascii'', ''bin'', ''bool'',
      ''breakpoint'', ''bytearray'', ''bytes'', ''callable'', ''chr'',
      ''classmethod'', ''compile'', ''complex'', ''copyright'', ''credits'',
      ''delattr'', ''dict'', ''dir'', ''divmod'', ''enumerate'',
      ''eval'', ''exec'', ''exit'', ''filter'', ''float'',
      ''format'', ''frozenset'', ''getattr'', ''globals'', ''hasattr'',
      ''hash'', ''help'', ''hex'', ''id'', ''input'',
      ''int'', ''isinstance'', ''issubclass'', ''iter'', ''len'',
      ''license'', ''list'', ''locals'', ''map'', ''max'',
      ''memoryview'', ''min'', ''next'', ''object'', ''oct'',
      ''open'', ''ord'', ''pow'', ''print'', ''property'',
      ''quit'', ''range'', ''repr'', ''reversed'', ''round'',
      ''set'', ''setattr'', ''slice'', ''sorted'', ''staticmethod'',
      ''str'', ''sum'', ''super'', ''tuple'', ''type'',
      ''vars'', ''zip'']"

definition lookup_name :: "string \<Rightarrow> string \<Rightarrow> exc + pyval" where
  "lookup_name run_name x =
     (case map_of (module_globals run_name) x of
        Some v \<Rightarrow> Inr v
      | None \<Rightarrow> if x \<in> set builtin_names then Inr PyObject else Inl NameError)"

definition run_module ::
  "('w \<Rightarrow> string \<Rightarrow> http_result \<times> 'w) \<Rightarrow> 'w \<Rightarrow> exc + (string \<times> string) list \<Rightarrow> exc option \<Rightarrow>
   string \<Rightarrow> exc option \<times> 'w \<times> event list" where
  "run_module requests_get w loaded write_error run_name =
     (case lookup_name run_name ''_name_'' of
        Inl e \<Rightarrow> (Some e, w, [])
      | Inr v \<Rightarrow>
          if v = PyStr ''_main_'' then main requests_get w loaded write_error
          else (None, w, []))"

text \<open>
  Lines 53 and 83 print the balance an entry's lookup decoded: \<open>balance_logged\<close> says
  that one of the two lines, for the name \<open>n\<close>, the cleaned address \<open>ca\<close> and the
  balance \<open>b\<close>, is among the events.
\<close>

definition balance_logged :: "event list \<Rightarrow> string \<Rightarrow> string \<Rightarrow> pyfloat \<Rightarrow> bool" where
  "balance_logged es n ca b =
     (Print (NameBalance n ca b) \<in> set es \<or> Print (NameBalanceFallback n ca b) \<in> set es)"

text \<open>The requests among the events.\<close>

fun requests_of :: "event list \<Rightarrow> string list" where
  "requests_of [] = []"
| "requests_of (HttpGet u # es) = u # requests_of es"
| "requests_of (e # es) = requests_of es"

text \<open>The files written among the events.\<close>

fun writes_of :: "event list \<Rightarrow> string list" where
  "writes_of [] = []"
| "writes_of (WriteJson path content indent # es) = path # writes_of es"
| "writes_of (e # es) = writes_of es"

text \<open>
  A network for examples: the state of the world counts the requests, the request
  number \<open>w\<close> gets the answer number \<open>w\<close> of a list, and every later request raises.
\<close>

definition scripted_get :: "http_result list \<Rightarrow> nat \<Rightarrow> string \<Rightarrow> http_result \<times> nat" where
  "scripted_get answers w url =
     (if w < length answers then answers ! w else Raises RequestError, Suc w)"

definition ok_json :: "json_value \<Rightarrow> http_result" where
  "ok_json body = Returns \<lparr>status_code = 200, json = Inr body\<rparr>"

definition status_only :: "int \<Rightarrow> http_result" where
  "status_only code = Returns \<lparr>status_code = code, json = Inl JSONDecodeError\<rparr>"

text \<open>
  The scenario of the specification: two names, the first above the threshold of 5
  STX (\<^verbatim>\<open>0x7A1200\<close> is 8 STX), the second below it.
\<close>

definition scenario_dict :: "(string \<times> string) list" where
  "scenario_dict = [(''alice'', ''SP0001''), (''bob'', ''SP0002'')]"

definition scenario_api :: "nat \<Rightarrow> string \<Rightarrow> http_result \<times> nat" where
  "scenario_api =
     scripted_get
       [ok_json (JObject [(''balance'', JString ''0x7A1200'')]),
        ok_json (JObject [(''balance'', JString ''0x100000'')])]"

text \<open>
  For stating what a balance string denotes: \<open>is_digit_of base c\<close> says that \<open>c\<close> is a
  digit of the base, and \<open>bind_div\<close> is the division by 1,000,000 of line 51 (or 81)
  after an \<^verbatim>\<open>int(...)\<close> that may have raised.
\<close>

definition is_digit_of :: "nat \<Rightarrow> char \<Rightarrow> bool" where
  "is_digit_of base c = (case digit_value c of None \<Rightarrow> False | Some d \<Rightarrow> d < base)"

definition bind_div :: "exc + int \<Rightarrow> exc + pyfloat" where
  "bind_div r = (case r of Inl e \<Rightarrow> Inl e | Inr n \<Rightarrow> true_div n 1000000)"


text \<open>
  A network whose first answer is 404 and whose second has a balance, and one that
  answers 404 and then 500.
\<close>

definition fallback_api :: "nat \<Rightarrow> string \<Rightarrow> http_result \<times> nat" where
  "fallback_api =
     scripted_get [status_only 404, ok_json (JObject [(''balance'', JString ''0x7A1200'')])]"

definition failing_api :: "nat \<Rightarrow> string \<Rightarrow> http_result \<times> nat" where
  "failing_api = scripted_get [status_only 404, status_only 500]"





text \<open>A network that answers 200 with a JSON object that has no balance field.\<close>

definition missing_api :: "nat \<Rightarrow> string \<Rightarrow> http_result \<times> nat" where
  "missing_api = scripted_get [ok_json (JObject [])]"

section \<open>Strings and numbers\<close>




lemma digit_not_underscore: "is_digit_of base c \<Longrightarrow> c \<noteq> CHR ''_''"
  by (auto simp: is_digit_of_def digit_value_def)

lemma digit_not_space: "is_digit_of base c \<Longrightarrow> \<not> int_isspace c"
  by (auto simp: is_digit_of_def digit_value_def int_isspace_def Let_def split: if_splits)

lemma digit_not_sign: "is_digit_of base c \<Longrightarrow> c \<noteq> CHR ''+'' \<and> c \<noteq> CHR ''-''"
  by (auto simp: is_digit_of_def digit_value_def)

lemma scan_digits_all:
  "prev \<noteq> CHR ''_'' \<Longrightarrow> \<forall>c \<in> set ds. is_digit_of base c \<Longrightarrow>
     scan_digits base prev ds = Some (map (the \<circ> digit_value) ds)"
proof (induction ds arbitrary: prev)
  case Nil
  then show ?case by simp
next
  case (Cons c ds)
  from Cons.prems have c: "is_digit_of base c" and rest: "\<forall>c \<in> set ds. is_digit_of base c"
    by simp_all
  from c have nu: "c \<noteq> CHR ''_''" by (rule digit_not_underscore)
  from c obtain d where d: "digit_value c = Some d" "d < base"
    by (auto simp: is_digit_of_def split: option.splits)
  from Cons.IH [OF nu rest] nu d show ?case by simp
qed

lemma strip_with_id:
  "s \<noteq> [] \<Longrightarrow> \<not> p (hd s) \<Longrightarrow> \<not> p (last s) \<Longrightarrow> strip_with p s = s"
proof -
  assume ne: "s \<noteq> []" and h: "\<not> p (hd s)" and l: "\<not> p (last s)"
  from ne h have a: "dropWhile p s = s" by (cases s) simp_all
  from ne l have "\<not> p (hd (rev s))" by (simp add: hd_rev)
  with ne have "dropWhile p (rev s) = rev s" by (cases "rev s") simp_all
  with a show ?thesis by (simp add: strip_with_def)
qed

lemma int_of_str_hex_digits:
  assumes "ds \<noteq> []" and "\<forall>c \<in> set ds. is_digit_of 16 c"
  shows "int_of_str (''0x'' @ ds) 16 = Inr (digits_value 16 (map (the \<circ> digit_value) ds))"
proof -
  from assms have hd: "is_digit_of 16 (hd ds)" and lst: "is_digit_of 16 (last ds)" by simp_all
  have zero: "\<not> int_isspace (CHR ''0'')" by (simp add: int_isspace_def)
  have "strip_with int_isspace (''0x'' @ ds) = ''0x'' @ ds"
    using assms(1) zero digit_not_space [OF lst] by (intro strip_with_id) simp_all
  moreover have "take 1 ds \<noteq> ''_''"
    using assms(1) digit_not_underscore [OF hd] by (cases ds) auto
  moreover have "scan_digits 16 (CHR ''0'') ds = Some (map (the \<circ> digit_value) ds)"
    by (rule scan_digits_all) (simp_all add: assms(2))
  ultimately show ?thesis
    using assms(1) by (simp add: int_of_str_def Let_def)
qed

lemma int_of_str_decimal_digits:
  assumes "ds \<noteq> []" and "\<forall>c \<in> set ds. is_digit_of 10 c" and "length ds \<le> 4300"
  shows "int_of_str ds 10 = Inr (digits_value 10 (map (the \<circ> digit_value) ds))"
proof -
  from assms have hd: "is_digit_of 10 (hd ds)" and lst: "is_digit_of 10 (last ds)" by simp_all
  have "strip_with int_isspace ds = ds"
    using assms(1) digit_not_space [OF hd] digit_not_space [OF lst] by (rule strip_with_id)
  moreover have "take 1 ds \<noteq> ''_''" "take 1 ds \<noteq> ''+''" "take 1 ds \<noteq> ''-''"
    using assms(1) digit_not_underscore [OF hd] digit_not_sign [OF hd] by (cases ds; auto)+
  moreover have "scan_digits 10 (CHR ''0'') ds = Some (map (the \<circ> digit_value) ds)"
    by (rule scan_digits_all) (simp_all add: assms(2))
  ultimately show ?thesis
    using assms(1,3) by (simp add: int_of_str_def Let_def int_max_str_digits_def)
qed

lemma round_div_near:
  assumes "0 < d"
  shows "\<bar>of_int (round_div n d) - (of_int n / of_int d :: rat)\<bar> \<le> 1 / 2"
proof -
  define q where "q = n div d"
  define r where "r = n mod d"
  have n: "n = q * d + r" by (simp add: q_def r_def)
  from assms have r: "0 \<le> r" "r < d" by (simp_all add: r_def)
  from assms have d: "(0::rat) < of_int d" by simp
  have x: "(of_int n / of_int d :: rat) = of_int q + of_int r / of_int d"
    using d by (simp add: n field_simps)
  have rd: "(0::rat) \<le> of_int r / of_int d" "(of_int r / of_int d :: rat) < 1"
    using r d by simp_all
  consider (low) "2 * r < d" | (high) "d < 2 * r" | (tie) "2 * r = d"
    by linarith
  then show ?thesis
  proof cases
    case low
    then have "(2 * of_int r :: rat) < of_int d" by (metis of_int_less_iff of_int_mult of_int_numeral)
    then have "(of_int r / of_int d :: rat) < 1 / 2" using d by (simp add: field_simps)
    moreover from low have "round_div n d = q" by (simp add: round_div_def q_def r_def Let_def)
    ultimately show ?thesis using rd by (simp add: x)
  next
    case high
    then have "(of_int d :: rat) < 2 * of_int r" by (metis of_int_less_iff of_int_mult of_int_numeral)
    then have "(1 / 2 :: rat) < of_int r / of_int d" using d by (simp add: field_simps)
    moreover from high have "round_div n d = q + 1"
      by (simp add: round_div_def q_def r_def Let_def)
    ultimately show ?thesis using rd by (simp add: x)
  next
    case tie
    then have "(2 * of_int r :: rat) = of_int d" by (metis of_int_mult of_int_numeral)
    then have h: "(of_int r / of_int d :: rat) = 1 / 2" using d by (simp add: field_simps)
    from h x have xq: "(of_int n / of_int d :: rat) = of_int q + 1 / 2" by simp
    from tie have "round_div n d = q \<or> round_div n d = q + 1"
      by (simp add: round_div_def q_def r_def Let_def)
    then show ?thesis
    proof
      assume "round_div n d = q"
      then show ?thesis by (simp add: xq)
    next
      assume "round_div n d = q + 1"
      then show ?thesis by (simp add: xq)
    qed
  qed
qed

lemma scale_is_power:
  "(of_int (if 0 \<le> s then 2 ^ nat s else 1) / of_int (if 0 \<le> s then 1 else 2 ^ nat (- s)) :: rat)
     = 2 powi s"
proof (cases "0 \<le> s")
  case True
  then show ?thesis by (simp add: power_int_nonneg_exp)
next
  case False
  then have "(2::rat) powi s = 1 / 2 powi (- s)" by (metis power_int_minus_divide minus_minus)
  with False show ?thesis by (simp add: power_int_nonneg_exp)
qed

lemma exponent_condition:
  assumes "0 < d"
  shows "(if 0 \<le> k then d * 2 ^ nat k \<le> n else d \<le> n * 2 ^ nat (- k))
         = ((2::rat) powi k \<le> of_int n / of_int d)"
proof (cases "0 \<le> k")
  case True
  have "(d * 2 ^ nat k \<le> n) = ((of_int (d * 2 ^ nat k) :: rat) \<le> of_int n)"
    by (simp only: of_int_le_iff)
  also have "\<dots> = ((2::rat) ^ nat k \<le> of_int n / of_int d)"
    using assms by (simp add: field_simps)
  finally show ?thesis using True by (simp add: power_int_nonneg_exp)
next
  case False
  then have p: "(2::rat) powi k = 1 / 2 ^ nat (- k)"
    by (metis power_int_minus_divide minus_minus power_int_nonneg_exp neg_0_le_iff_le linear)
  have "(d \<le> n * 2 ^ nat (- k)) = ((of_int d :: rat) \<le> of_int (n * 2 ^ nat (- k)))"
    by (simp only: of_int_le_iff)
  also have "\<dots> = (1 / (2::rat) ^ nat (- k) \<le> of_int n / of_int d)"
    using assms by (simp add: field_simps)
  finally show ?thesis using False p by simp
qed

lemma exponent_below_quotient:
  assumes "0 < n" and "0 < d"
  shows "(2::rat) powi (bitlen n - bitlen d - 1) \<le> of_int n / of_int d"
proof -
  from bitlen_bounds [OF assms(1)] have "2 ^ nat (bitlen n - 1) \<le> n" by simp
  then have "(of_int (2 ^ nat (bitlen n - 1)) :: rat) \<le> of_int n" by (simp only: of_int_le_iff)
  moreover have "1 \<le> bitlen n" using assms(1) bitlen_eq_zero_iff [of n] bitlen_nonneg [of n]
    by linarith
  ultimately have lo: "(2::rat) powi (bitlen n - 1) \<le> of_int n"
    by (simp add: power_int_nonneg_exp)
  from bitlen_bounds [OF assms(2)] have "d < 2 ^ nat (bitlen d)" by simp
  then have "(of_int d :: rat) < of_int (2 ^ nat (bitlen d))" by (simp only: of_int_less_iff)
  then have hi: "(of_int d :: rat) < 2 powi (bitlen d)"
    using bitlen_nonneg [of d] by (simp add: power_int_nonneg_exp)
  have "bitlen n - bitlen d - 1 = (bitlen n - 1) - bitlen d" by simp
  then have "(2::rat) powi (bitlen n - bitlen d - 1) = 2 powi ((bitlen n - 1) - bitlen d)"
    by (simp only:)
  also have "\<dots> = 2 powi (bitlen n - 1) / 2 powi (bitlen d)"
    by (rule power_int_diff) simp
  also have "\<dots> \<le> of_int n / 2 powi (bitlen d)"
    using lo by (simp add: divide_right_mono)
  also have "\<dots> \<le> of_int n / of_int d"
    using hi assms by (simp add: frac_le)
  finally show ?thesis .
qed

lemma nearest_double_relative_error:
  assumes "0 < n" and "0 < d" and "- 1021 \<le> bitlen n - bitlen d"
    and "nearest_double n d = Some y"
  shows "\<bar>y - of_int n / of_int d\<bar> \<le> (of_int n / of_int d) / 2 ^ 53"
proof -
  define k where "k = bitlen n - bitlen d"
  define e0 where "e0 = (if (if 0 \<le> k then d * 2 ^ nat k \<le> n else d \<le> n * 2 ^ nat (- k))
                     then k else k - 1)"
  define e where "e = max e0 (- 1022)"
  define s where "s = e - 52"
  define num :: int where "num = (if 0 \<le> s then 2 ^ nat s else 1)"
  define den :: int where "den = (if 0 \<le> s then 1 else 2 ^ nat (- s))"
  define m where "m = round_div (n * den) (d * num)"
  define x :: rat where "x = of_int n / of_int d"
  note n = assms(1) and d = assms(2)
  have x: "0 < x" using n d by (simp add: x_def)
  have num: "0 < num" and den: "0 < den" by (simp_all add: num_def den_def)
  have unfold: "nearest_double n d =
      (if 2 ^ 1024 * den \<le> m * num then None else Some (of_int (m * num) / of_int den))"
    by (simp only: nearest_double_def Let_def m_def den_def num_def s_def e_def e0_def k_def)
  with assms(4) have y: "y = of_int (m * num) / of_int den"
    by (simp split: if_splits)
  have p: "(of_int num / of_int den :: rat) = 2 powi s"
    unfolding num_def den_def by (rule scale_is_power)
  have e0: "(2::rat) powi e0 \<le> x"
  proof (cases "(2::rat) powi k \<le> x")
    case True
    then show ?thesis by (simp add: e0_def exponent_condition [OF d] x_def)
  next
    case False
    then have "e0 = k - 1" by (simp add: e0_def exponent_condition [OF d] x_def)
    with exponent_below_quotient [OF n d] show ?thesis by (simp add: k_def x_def)
  qed
  from assms(3) have "- 1022 \<le> e0" by (simp add: e0_def k_def)
  then have e: "e = e0" by (simp add: e_def)
  have near: "\<bar>of_int m - (of_int (n * den) / of_int (d * num) :: rat)\<bar> \<le> 1 / 2"
    unfolding m_def using d num by (intro round_div_near) simp
  have z: "(of_int (n * den) / of_int (d * num) :: rat) = x / 2 powi s"
    using num den d by (simp add: p [symmetric] x_def field_simps)
  have pos: "(0::rat) < 2 powi s" by simp
  have "\<bar>of_int m * 2 powi s - x\<bar> = \<bar>of_int m - x / 2 powi s\<bar> * 2 powi s"
  proof -
    have "of_int m * 2 powi s - x = (of_int m - x / 2 powi s) * 2 powi s"
      using pos by (simp add: field_simps)
    then show ?thesis using pos by (simp add: abs_mult)
  qed
  also have "\<dots> \<le> 1 / 2 * 2 powi s"
  proof -
    from near have "\<bar>of_int m - x / 2 powi s\<bar> \<le> 1 / 2" by (simp only: z)
    then show ?thesis using pos by (rule mult_right_mono [OF _ less_imp_le])
  qed
  also have "\<dots> = 2 powi e0 / 2 ^ 53"
  proof -
    have "(2::rat) powi s = 2 powi e0 / 2 powi 52"
      unfolding s_def e by (rule power_int_diff) simp
    then show ?thesis by simp
  qed
  also have "\<dots> \<le> x / 2 ^ 53" using e0 by (simp add: divide_right_mono)
  finally have main: "\<bar>of_int m * 2 powi s - x\<bar> \<le> x / 2 ^ 53" .
  have "y = of_int m * 2 powi s"
    using den by (simp add: y p [symmetric])
  with main show ?thesis by (simp add: x_def)
qed

lemma true_div_relative_error:
  assumes "true_div a 1000000 = Inr (Finite y)"
  shows "\<bar>y - of_int a / 1000000\<bar> \<le> \<bar>of_int a / 1000000\<bar> / 2 ^ 53"
proof (cases "a = 0")
  case True
  with assms show ?thesis by (simp add: true_div_def)
next
  case False
  then have n: "0 < \<bar>a\<bar>" by simp
  have d: "(0::int) < 1000000" by simp
  have "bitlen 1000000 = 20" by code_simp
  moreover have "1 \<le> bitlen \<bar>a\<bar>"
    using n bitlen_eq_zero_iff [of "\<bar>a\<bar>"] bitlen_nonneg [of "\<bar>a\<bar>"] by linarith
  ultimately have k: "- 1021 \<le> bitlen \<bar>a\<bar> - bitlen 1000000" by simp
  from assms False obtain z where z: "nearest_double \<bar>a\<bar> 1000000 = Some z"
    and y: "y = (if a < 0 then - z else z)"
    by (auto simp: true_div_def split: option.splits)
  from nearest_double_relative_error [OF n d k z]
  have b: "\<bar>z - of_int \<bar>a\<bar> / 1000000\<bar> \<le> (of_int \<bar>a\<bar> / 1000000) / 2 ^ 53" by simp
  show ?thesis
  proof (cases "a < 0")
    case True
    then have "\<bar>y - of_int a / 1000000\<bar> = \<bar>z - of_int \<bar>a\<bar> / 1000000\<bar>"
      by (simp add: y abs_minus_commute)
    moreover from True have "\<bar>of_int a / 1000000 :: rat\<bar> = of_int \<bar>a\<bar> / 1000000" by simp
    ultimately show ?thesis using b by simp
  next
    case False
    then show ?thesis using b by (simp add: y)
  qed
qed

section \<open>One iteration\<close>

lemma fallback_balance_stx_eq: "fallback_balance_stx = primary_balance_stx"
  by (rule ext) (simp add: fallback_balance_stx_def primary_balance_stx_def)


lemma loop_body_other:
  "n' \<noteq> n \<Longrightarrow> map_of (qualifying_addresses (loop_body rg t i n a w q)) n' = map_of q n'"
  by (auto simp: loop_body_def try_body_def Let_def update_conv'
      split: prod.splits http_result.splits sum.splits if_splits option.splits)

lemma loop_body_logged:
  "balance_logged (events (loop_body rg t i n a w q)) n' ca b \<Longrightarrow>
     n' = n \<and> ca = clean_address a \<and>
     map_of (qualifying_addresses (loop_body rg t i n a w q)) n =
       (if py_gt b t then Some \<lparr>address_of = ca, balance_of = b\<rparr> else map_of q n)"
  by (auto simp: balance_logged_def loop_body_def try_body_def Let_def update_conv' rate_limit_def
      split: prod.splits http_result.splits sum.splits if_splits option.splits)

lemma loop_body_stored:
  "map_of (qualifying_addresses (loop_body rg t i n a w q)) k = Some r \<Longrightarrow>
     map_of q k = Some r \<or>
     (k = n \<and> address_of r = clean_address a \<and> py_gt (balance_of r) t \<and>
      balance_logged (events (loop_body rg t i n a w q)) n (address_of r) (balance_of r))"
  by (auto simp: balance_logged_def loop_body_def try_body_def Let_def update_conv' rate_limit_def
      split: prod.splits http_result.splits sum.splits if_splits option.splits)

lemma requests_of_append: "requests_of (xs @ ys) = requests_of xs @ requests_of ys"
  by (induction xs rule: requests_of.induct) simp_all

lemma requests_of_rate_limit: "requests_of (rate_limit i) = []"
  by (simp add: rate_limit_def)

section \<open>The loop\<close>

lemma balance_logged_append:
  "balance_logged (xs @ ys) n ca b = (balance_logged xs n ca b \<or> balance_logged ys n ca b)"
  by (auto simp: balance_logged_def)

lemma loop_other:
  "n' \<notin> fst ` set d \<Longrightarrow> map_of (qualifying_addresses (loop rg t i d w q)) n' = map_of q n'"
proof (induction d arbitrary: i w q)
  case Nil
  then show ?case by simp
next
  case (Cons x d)
  obtain n a where x: "x = (n, a)" by (cases x)
  from Cons.prems x have ne: "n' \<noteq> n" and notin: "n' \<notin> fst ` set d" by auto
  show ?case
    using Cons.IH [OF notin] loop_body_other [OF ne] by (simp add: x Let_def)
qed

lemma loop_logged_name:
  "balance_logged (events (loop rg t i d w q)) n ca b \<Longrightarrow> n \<in> fst ` set d"
proof (induction d arbitrary: i w q)
  case Nil
  then show ?case by (simp add: balance_logged_def)
next
  case (Cons x d)
  obtain n' a where x: "x = (n', a)" by (cases x)
  from Cons.prems have
    "balance_logged (events (loop_body rg t i n' a w q)) n ca b \<or>
     balance_logged (events (loop rg t (Suc i) d (world (loop_body rg t i n' a w q))
        (qualifying_addresses (loop_body rg t i n' a w q)))) n ca b"
    by (simp add: x Let_def balance_logged_append)
  then show ?case
  proof
    assume "balance_logged (events (loop_body rg t i n' a w q)) n ca b"
    from loop_body_logged [OF this] show ?thesis by (simp add: x)
  next
    assume "balance_logged (events (loop rg t (Suc i) d (world (loop_body rg t i n' a w q))
        (qualifying_addresses (loop_body rg t i n' a w q)))) n ca b"
    from Cons.IH [OF this] show ?thesis by simp
  qed
qed

lemma loop_Cons_qualifying:
  "qualifying_addresses (loop rg t i ((n, a) # d) w q) =
     qualifying_addresses (loop rg t (Suc i) d (world (loop_body rg t i n a w q))
        (qualifying_addresses (loop_body rg t i n a w q)))"
  by (simp add: Let_def)

lemma loop_Cons_events:
  "events (loop rg t i ((n, a) # d) w q) =
     events (loop_body rg t i n a w q)
     @ events (loop rg t (Suc i) d (world (loop_body rg t i n a w q))
        (qualifying_addresses (loop_body rg t i n a w q)))"
  by (simp add: Let_def)

lemma loop_logged:
  "distinct (map fst d) \<Longrightarrow> balance_logged (events (loop rg t i d w q)) n ca b \<Longrightarrow>
     map_of (qualifying_addresses (loop rg t i d w q)) n =
       (if py_gt b t then Some \<lparr>address_of = ca, balance_of = b\<rparr> else map_of q n)"
proof (induction d arbitrary: i w q)
  case Nil
  then show ?case by (simp add: balance_logged_def)
next
  case (Cons x d)
  obtain n' a where x: "x = (n', a)" by (cases x)
  let ?s = "loop_body rg t i n' a w q"
  let ?r = "loop rg t (Suc i) d (world ?s) (qualifying_addresses ?s)"
  from Cons.prems(1) x have dist: "distinct (map fst d)" and fresh: "n' \<notin> fst ` set d"
    by auto
  from Cons.prems(2) have "balance_logged (events ?s) n ca b \<or> balance_logged (events ?r) n ca b"
    unfolding x loop_Cons_events balance_logged_append .
  then show ?case
  proof
    assume here: "balance_logged (events ?s) n ca b"
    from loop_body_logged [OF here] have n: "n = n'"
      and m: "map_of (qualifying_addresses ?s) n' =
        (if py_gt b t then Some \<lparr>address_of = ca, balance_of = b\<rparr> else map_of q n')"
      by auto
    have "map_of (qualifying_addresses ?r) n' = map_of (qualifying_addresses ?s) n'"
      by (rule loop_other [OF fresh])
    with n m show ?thesis unfolding x loop_Cons_qualifying by simp
  next
    assume later: "balance_logged (events ?r) n ca b"
    from loop_logged_name [OF later] fresh have ne: "n \<noteq> n'" by auto
    have "map_of (qualifying_addresses ?s) n = map_of q n"
      by (rule loop_body_other [OF ne])
    with Cons.IH [OF dist later] show ?thesis unfolding x loop_Cons_qualifying by simp
  qed
qed

lemma loop_stored:
  "map_of (qualifying_addresses (loop rg t i d w q)) k = Some r \<Longrightarrow>
     map_of q k = Some r \<or>
     (k \<in> fst ` set d \<and> py_gt (balance_of r) t \<and>
      balance_logged (events (loop rg t i d w q)) k (address_of r) (balance_of r))"
proof (induction d arbitrary: i w q)
  case Nil
  then show ?case by simp
next
  case (Cons x d)
  obtain n' a where x: "x = (n', a)" by (cases x)
  let ?s = "loop_body rg t i n' a w q"
  let ?r = "loop rg t (Suc i) d (world ?s) (qualifying_addresses ?s)"
  from Cons.prems have "map_of (qualifying_addresses ?r) k = Some r"
    unfolding x loop_Cons_qualifying .
  from Cons.IH [OF this] show ?case
  proof
    assume "map_of (qualifying_addresses ?s) k = Some r"
    from loop_body_stored [OF this] show ?thesis
      unfolding x loop_Cons_events balance_logged_append by auto
  next
    assume "k \<in> fst ` set d \<and> py_gt (balance_of r) t \<and>
      balance_logged (events ?r) k (address_of r) (balance_of r)"
    then show ?thesis
      unfolding x loop_Cons_events balance_logged_append by auto
  qed
qed

lemma loop_body_distinct:
  "distinct (map fst q) \<Longrightarrow> distinct (map fst (qualifying_addresses (loop_body rg t i n a w q)))"
  by (auto simp: loop_body_def try_body_def Let_def distinct_update
      split: prod.splits http_result.splits sum.splits if_splits option.splits)

lemma loop_distinct:
  "distinct (map fst q) \<Longrightarrow> distinct (map fst (qualifying_addresses (loop rg t i d w q)))"
proof (induction d arbitrary: i w q)
  case Nil
  then show ?case by simp
next
  case (Cons x d)
  obtain n a where x: "x = (n, a)" by (cases x)
  from Cons.IH [OF loop_body_distinct [OF Cons.prems]] show ?case
    unfolding x loop_Cons_qualifying .
qed

lemma balance_logged_check:
  "balance_logged (events (check_stx_balances rg w d t)) n ca b =
   balance_logged (events (loop rg t 0 d w [])) n ca b"
  by (auto simp: check_stx_balances_def Let_def balance_logged_def)

lemma qualifying_check:
  "qualifying_addresses (check_stx_balances rg w d t) = qualifying_addresses (loop rg t 0 d w [])"
  by (simp add: check_stx_balances_def Let_def)


lemma decoded_balance_is_logged:
  assumes "requests_get w (base_url @ clean_address address) = (Returns response, w1)"
    and "status_code response = 200" and "json response = Inr data"
    and "primary_balance_stx data = Inr b"
  shows "balance_logged (events (loop_body requests_get min_balance i name address w q))
           name (clean_address address) b"
  using assms by (simp add: balance_logged_def loop_body_def try_body_def Let_def)




section \<open>The claims\<close>

text \<open>
  C1. For every input mapping (a \<^verbatim>\<open>dict\<close>, so its names are distinct), every
  threshold and every name whose lookup decoded a balance \<open>b\<close> (the program prints it
  at line 53 or 83), the name is a key of the result if and only if \<open>b\<close> is strictly
  greater than the threshold. The keys of the result are names of the input, and the
  balance of every record of the result is strictly greater than the threshold.
\<close>

theorem qualifying_iff_balance_exceeds:
  assumes "distinct (map fst address_dict)"
    and "balance_logged (events (check_stx_balances requests_get w address_dict min_balance))
           name ca b"
  shows "(name \<in> fst ` set (qualifying_addresses
              (check_stx_balances requests_get w address_dict min_balance)))
           = py_gt b min_balance
       \<and> fst ` set (qualifying_addresses
              (check_stx_balances requests_get w address_dict min_balance))
           \<subseteq> fst ` set address_dict
       \<and> (\<forall>(n, r) \<in> set (qualifying_addresses
              (check_stx_balances requests_get w address_dict min_balance)).
             py_gt (balance_of r) min_balance)"
proof -
  let ?r = "check_stx_balances requests_get w address_dict min_balance"
  let ?l = "loop requests_get min_balance 0 address_dict w []"
  have q: "qualifying_addresses ?r = qualifying_addresses ?l"
    by (rule qualifying_check)
  from assms(2) have logged: "balance_logged (events ?l) name ca b"
    by (simp add: balance_logged_check)
  have "map_of (qualifying_addresses ?l) name =
      (if py_gt b min_balance then Some \<lparr>address_of = ca, balance_of = b\<rparr> else None)"
    using loop_logged [OF assms(1) logged] by simp
  then have one: "(name \<in> fst ` set (qualifying_addresses ?l)) = py_gt b min_balance"
    by (simp add: dom_map_of_conv_image_fst [symmetric] domIff)
  have two: "fst ` set (qualifying_addresses ?l) \<subseteq> fst ` set address_dict"
  proof
    fix k assume "k \<in> fst ` set (qualifying_addresses ?l)"
    then obtain r where "map_of (qualifying_addresses ?l) k = Some r"
      by (auto simp: dom_map_of_conv_image_fst [symmetric])
    from loop_stored [OF this] show "k \<in> fst ` set address_dict" by simp
  qed
  have three: "\<forall>(n, r) \<in> set (qualifying_addresses ?l). py_gt (balance_of r) min_balance"
  proof (clarify)
    fix n r assume "(n, r) \<in> set (qualifying_addresses ?l)"
    moreover have "distinct (map fst (qualifying_addresses ?l))"
      by (rule loop_distinct) simp
    ultimately have "map_of (qualifying_addresses ?l) n = Some r" by simp
    from loop_stored [OF this] show "py_gt (balance_of r) min_balance" by simp
  qed
  from one two three show ?thesis unfolding q by blast
qed

theorem qualifying_iff_balance_exceeds_witness:
  "distinct (map fst scenario_dict)
   \<and> balance_logged (events (check_stx_balances scenario_api 0 scenario_dict (Finite 5)))
       ''alice'' ''SP0001'' (Finite 8)
   \<and> ''alice'' \<in> fst ` set (qualifying_addresses
        (check_stx_balances scenario_api 0 scenario_dict (Finite 5)))
   \<and> py_gt (Finite 8) (Finite 5)"
proof -
  have d: "distinct (map fst scenario_dict)"
    by code_simp
  have l: "balance_logged (events (check_stx_balances scenario_api 0 scenario_dict (Finite 5)))
       ''alice'' ''SP0001'' (Finite 8)"
    by code_simp
  from qualifying_iff_balance_exceeds [OF d l] d l show ?thesis by simp
qed

text \<open>
  C2. The balance of a response with status 200, read by lines 41 to 51 (and by the
  same text at lines 71 to 81): a string that starts with \<^verbatim>\<open>0x\<close> is read by
  \<^verbatim>\<open>int(s, 16)\<close>, every other value by \<^verbatim>\<open>int(v)\<close>, and the integer is divided by
  1,000,000. For \<^verbatim>\<open>0x\<close> followed by hexadecimal digits the integer is the base-16
  value of the digits, for a string of at most 4300 decimal digits it is their
  base-10 value. The float that the division gives differs from the exact quotient
  by at most the quotient's magnitude times \<open>2 ^ - 53\<close> (one rounding to binary64).
  The witness has the examples: \<^verbatim>\<open>"0x4c4b40"\<close> gives 5.0, and
  \<^verbatim>\<open>"5000001"\<close> gives the float nearest to 5.000001.
\<close>

theorem balance_decoding:
  "(map_of kvs ''balance'' = Some (JString s) \<and> startswith s ''0x'' \<longrightarrow>
      primary_balance_stx (JObject kvs) = bind_div (int_of_str s 16))
   \<and> (map_of kvs ''balance'' = Some v \<and> (\<forall>s. v = JString s \<longrightarrow> \<not> startswith s ''0x'') \<longrightarrow>
      primary_balance_stx (JObject kvs) = bind_div (py_int v))
   \<and> fallback_balance_stx = primary_balance_stx
   \<and> (ds \<noteq> [] \<and> (\<forall>c \<in> set ds. is_digit_of 16 c) \<longrightarrow>
      primary_balance_stx (JObject [(''balance'', JString (''0x'' @ ds))])
        = true_div (digits_value 16 (map (the \<circ> digit_value) ds)) 1000000)
   \<and> (ds \<noteq> [] \<and> (\<forall>c \<in> set ds. is_digit_of 10 c) \<and> length ds \<le> 4300 \<longrightarrow>
      primary_balance_stx (JObject [(''balance'', JString ds)])
        = true_div (digits_value 10 (map (the \<circ> digit_value) ds)) 1000000)
   \<and> (true_div n 1000000 = Inr (Finite y) \<longrightarrow>
      \<bar>y - of_int n / 1000000\<bar> \<le> \<bar>of_int n / 1000000\<bar> / 2 ^ 53)"
proof (intro conjI impI)
  assume "true_div n 1000000 = Inr (Finite y)"
  then show "\<bar>y - of_int n / 1000000\<bar> \<le> \<bar>of_int n / 1000000\<bar> / 2 ^ 53"
    by (rule true_div_relative_error)
next
  assume "map_of kvs ''balance'' = Some (JString s) \<and> startswith s ''0x''"
  then show "primary_balance_stx (JObject kvs) = bind_div (int_of_str s 16)"
    by (simp add: primary_balance_stx_def bind_div_def)
next
  assume "map_of kvs ''balance'' = Some v \<and> (\<forall>s. v = JString s \<longrightarrow> \<not> startswith s ''0x'')"
  then show "primary_balance_stx (JObject kvs) = bind_div (py_int v)"
    by (cases v) (simp_all add: primary_balance_stx_def bind_div_def)
next
  show "fallback_balance_stx = primary_balance_stx" by (rule fallback_balance_stx_eq)
next
  assume a: "ds \<noteq> [] \<and> (\<forall>c \<in> set ds. is_digit_of 16 c)"
  then have "int_of_str (''0x'' @ ds) 16 = Inr (digits_value 16 (map (the \<circ> digit_value) ds))"
    by (intro int_of_str_hex_digits) simp_all
  then show "primary_balance_stx (JObject [(''balance'', JString (''0x'' @ ds))])
        = true_div (digits_value 16 (map (the \<circ> digit_value) ds)) 1000000"
    by (simp add: primary_balance_stx_def startswith_def)
next
  assume a: "ds \<noteq> [] \<and> (\<forall>c \<in> set ds. is_digit_of 10 c) \<and> length ds \<le> 4300"
  then have i: "int_of_str ds 10 = Inr (digits_value 10 (map (the \<circ> digit_value) ds))"
    by (intro int_of_str_decimal_digits) simp_all
  have x: "\<not> is_digit_of 10 (CHR ''x'')"
    by (simp add: is_digit_of_def digit_value_def)
  have "\<not> startswith ds ''0x''"
  proof
    assume "startswith ds ''0x''"
    then have "take (length ''0x'') ds = ''0x''" by (simp only: startswith_def)
    then have "ds = ''0x'' @ drop (length ''0x'') ds" by (metis append_take_drop_id)
    then have "CHR ''x'' \<in> set ds" by (metis in_set_conv_decomp append_Cons append_Nil)
    with a x show False by blast
  qed
  with i show "primary_balance_stx (JObject [(''balance'', JString ds)])
        = true_div (digits_value 10 (map (the \<circ> digit_value) ds)) 1000000"
    by (simp add: primary_balance_stx_def)
qed

theorem balance_decoding_witness:
  "primary_balance_stx (JObject [(''balance'', JString ''0x4c4b40'')]) = Inr (Finite 5)
   \<and> primary_balance_stx (JObject [(''balance'', JString ''5000001'')])
       = Inr (Finite (5629500660113027 / 2 ^ 50))
   \<and> \<bar>5629500660113027 / 2 ^ 50 - 5000001 / 1000000\<bar> \<le> (1 / 2 ^ 51 :: rat)
   \<and> primary_balance_stx (JObject [(''balance'', JInt 5000001)])
       = Inr (Finite (5629500660113027 / 2 ^ 50))"
proof -
  have h1: "map_of [(''balance'', JString ''0x4c4b40'')] ''balance'' = Some (JString ''0x4c4b40'')
      \<and> startswith ''0x4c4b40'' ''0x''"
    by (simp add: startswith_def)
  have e1: "bind_div (int_of_str ''0x4c4b40'' 16) = Inr (Finite 5)"
    by code_simp
  have h2: "map_of [(''balance'', JString ''5000001'')] ''balance'' = Some (JString ''5000001'')
      \<and> (\<forall>s. JString ''5000001'' = JString s \<longrightarrow> \<not> startswith s ''0x'')"
    by (simp add: startswith_def)
  have e2: "bind_div (py_int (JString ''5000001'')) = Inr (Finite (5629500660113027 / 2 ^ 50))"
    by code_simp
  have h3: "map_of [(''balance'', JInt 5000001)] ''balance'' = Some (JInt 5000001)
      \<and> (\<forall>s. JInt 5000001 = JString s \<longrightarrow> \<not> startswith s ''0x'')"
    by simp
  have e3: "bind_div (py_int (JInt 5000001)) = Inr (Finite (5629500660113027 / 2 ^ 50))"
    by code_simp
  have near: "\<bar>5629500660113027 / 2 ^ 50 - 5000001 / 1000000\<bar> \<le> (1 / 2 ^ 51 :: rat)"
    by simp
  from balance_decoding [THEN conjunct1, rule_format, OF h1]
    balance_decoding [THEN conjunct2, THEN conjunct1, rule_format, OF h2]
    balance_decoding [THEN conjunct2, THEN conjunct1, rule_format, OF h3]
    e1 e2 e3 near
  show ?thesis by simp
qed



text \<open>
  C4. When the primary request of an entry is answered with a status other than 200,
  the iteration issues exactly one more request, to the accounts URL of the same
  cleaned address. Its answer is treated as the primary answer would be, by the same
  decoding; when it is not 200 either, the failure line is printed, the result is
  unchanged and no further request is made.
\<close>

theorem fallback_queried_once:
  assumes "requests_get w (base_url @ clean_address address) = (Returns response, w1)"
    and "status_code response \<noteq> 200"
    and "requests_get w1 (fallback_base @ clean_address address) = (fallback_got, w2)"
  shows "requests_of (events (loop_body requests_get min_balance i name address w q))
           = [base_url @ clean_address address, fallback_base @ clean_address address]
       \<and> world (loop_body requests_get min_balance i name address w q) = w2
       \<and> fallback_balance_stx = primary_balance_stx
       \<and> loop_body requests_get min_balance i name address w q =
          (case fallback_got of
             Raises e \<Rightarrow>
               \<lparr>world = w2, qualifying_addresses = q,
                events = [HttpGet (base_url @ clean_address address),
                          HttpGet (fallback_base @ clean_address address),
                          Print (ErrorProcessing name address e)]\<rparr>
           | Returns fallback_response \<Rightarrow>
               if status_code fallback_response = 200 then
                 (case json fallback_response of
                    Inl e \<Rightarrow>
                      \<lparr>world = w2, qualifying_addresses = q,
                       events = [HttpGet (base_url @ clean_address address),
                                 HttpGet (fallback_base @ clean_address address),
                                 Print (ErrorProcessing name address e)]\<rparr>
                  | Inr fallback_data \<Rightarrow>
                      (case primary_balance_stx fallback_data of
                         Inl e \<Rightarrow>
                           \<lparr>world = w2, qualifying_addresses = q,
                            events = [HttpGet (base_url @ clean_address address),
                                      HttpGet (fallback_base @ clean_address address),
                                      Print (ErrorProcessing name address e)]\<rparr>
                       | Inr b \<Rightarrow>
                           \<lparr>world = w2,
                            qualifying_addresses =
                              (if py_gt b min_balance
                               then AList.update name
                                      \<lparr>address_of = clean_address address, balance_of = b\<rparr> q
                               else q),
                            events = [HttpGet (base_url @ clean_address address),
                                      HttpGet (fallback_base @ clean_address address),
                                      Print (NameBalanceFallback name (clean_address address) b)]
                                     @ (if py_gt b min_balance
                                        then [Print (FoundQualifying name (clean_address address) b)]
                                        else [])
                                     @ rate_limit i\<rparr>))
               else
                 \<lparr>world = w2, qualifying_addresses = q,
                  events = [HttpGet (base_url @ clean_address address),
                            HttpGet (fallback_base @ clean_address address),
                            Print (FailedToGet name (clean_address address)
                                     (status_code response))]
                           @ rate_limit i\<rparr>)"
proof -
  have eq: "fallback_balance_stx = primary_balance_stx" by (rule fallback_balance_stx_eq)
  have body: "loop_body requests_get min_balance i name address w q =
          (case fallback_got of
             Raises e \<Rightarrow>
               \<lparr>world = w2, qualifying_addresses = q,
                events = [HttpGet (base_url @ clean_address address),
                          HttpGet (fallback_base @ clean_address address),
                          Print (ErrorProcessing name address e)]\<rparr>
           | Returns fallback_response \<Rightarrow>
               if status_code fallback_response = 200 then
                 (case json fallback_response of
                    Inl e \<Rightarrow>
                      \<lparr>world = w2, qualifying_addresses = q,
                       events = [HttpGet (base_url @ clean_address address),
                                 HttpGet (fallback_base @ clean_address address),
                                 Print (ErrorProcessing name address e)]\<rparr>
                  | Inr fallback_data \<Rightarrow>
                      (case primary_balance_stx fallback_data of
                         Inl e \<Rightarrow>
                           \<lparr>world = w2, qualifying_addresses = q,
                            events = [HttpGet (base_url @ clean_address address),
                                      HttpGet (fallback_base @ clean_address address),
                                      Print (ErrorProcessing name address e)]\<rparr>
                       | Inr b \<Rightarrow>
                           \<lparr>world = w2,
                            qualifying_addresses =
                              (if py_gt b min_balance
                               then AList.update name
                                      \<lparr>address_of = clean_address address, balance_of = b\<rparr> q
                               else q),
                            events = [HttpGet (base_url @ clean_address address),
                                      HttpGet (fallback_base @ clean_address address),
                                      Print (NameBalanceFallback name (clean_address address) b)]
                                     @ (if py_gt b min_balance
                                        then [Print (FoundQualifying name (clean_address address) b)]
                                        else [])
                                     @ rate_limit i\<rparr>))
               else
                 \<lparr>world = w2, qualifying_addresses = q,
                  events = [HttpGet (base_url @ clean_address address),
                            HttpGet (fallback_base @ clean_address address),
                            Print (FailedToGet name (clean_address address)
                                     (status_code response))]
                           @ rate_limit i\<rparr>)"
    using assms
    by (simp add: loop_body_def try_body_def Let_def eq
        split: http_result.splits sum.splits)
  have reqs: "requests_of (events (loop_body requests_get min_balance i name address w q))
           = [base_url @ clean_address address, fallback_base @ clean_address address]"
    unfolding body
    by (simp add: requests_of_append requests_of_rate_limit split: http_result.splits sum.splits)
  have wld: "world (loop_body requests_get min_balance i name address w q) = w2"
    unfolding body by (simp split: http_result.splits sum.splits)
  from reqs wld eq body show ?thesis by blast
qed

theorem fallback_queried_once_witness:
  "requests_of (events (loop_body fallback_api (Finite 5) 0 ''alice'' ''SP0001'' 0 []))
     = [base_url @ ''SP0001'', fallback_base @ ''SP0001'']
   \<and> qualifying_addresses (loop_body fallback_api (Finite 5) 0 ''alice'' ''SP0001'' 0 [])
     = [(''alice'', \<lparr>address_of = ''SP0001'', balance_of = Finite 8\<rparr>)]
   \<and> loop_body failing_api (Finite 5) 0 ''bob'' ''SP0002'' 0 []
     = \<lparr>world = 2, qualifying_addresses = [],
        events = [HttpGet (base_url @ ''SP0002''), HttpGet (fallback_base @ ''SP0002''),
                  Print (FailedToGet ''bob'' ''SP0002'' 404)]\<rparr>"
proof -
  have c1: "clean_address ''SP0001'' = ''SP0001''" by code_simp
  have c2: "clean_address ''SP0002'' = ''SP0002''" by code_simp
  have p1: "fallback_api 0 (base_url @ clean_address ''SP0001'')
      = (Returns \<lparr>status_code = 404, json = Inl JSONDecodeError\<rparr>, 1)"
    by (simp add: fallback_api_def scripted_get_def status_only_def)
  have f1: "fallback_api 1 (fallback_base @ clean_address ''SP0001'')
      = (ok_json (JObject [(''balance'', JString ''0x7A1200'')]), 2)"
    by (simp add: fallback_api_def scripted_get_def)
  have p2: "failing_api 0 (base_url @ clean_address ''SP0002'')
      = (Returns \<lparr>status_code = 404, json = Inl JSONDecodeError\<rparr>, 1)"
    by (simp add: failing_api_def scripted_get_def status_only_def)
  have f2: "failing_api 1 (fallback_base @ clean_address ''SP0002'')
      = (status_only 500, 2)"
    by (simp add: failing_api_def scripted_get_def)
  have s: "status_code \<lparr>status_code = 404, json = Inl JSONDecodeError\<rparr> \<noteq> 200" by simp
  have d: "primary_balance_stx (JObject [(''balance'', JString ''0x7A1200'')]) = Inr (Finite 8)"
    by code_simp
  have r: "rate_limit 0 = []" by (simp add: rate_limit_def)
  from fallback_queried_once [OF p1 s f1, of "Finite 5" 0 "''alice''" "[]"]
    fallback_queried_once [OF p2 s f2, of "Finite 5" 0 "''bob''" "[]"]
  show ?thesis
    by (simp add: c1 c2 d r ok_json_def status_only_def)
qed



text \<open>
  C6, as the claim states it, fails: with the threshold \<open>- 1\<close>, an entry whose answer
  has no balance field is not skipped but recorded, with the balance 0.0, and no error
  is printed for it.
\<close>

theorem missing_balance_skipped_counterexample:
  "check_stx_balances missing_api 0 [(''alice'', ''SP0001'')] (Finite (- 1))
     = \<lparr>world = 1,
        qualifying_addresses = [(''alice'', \<lparr>address_of = ''SP0001'', balance_of = Finite 0\<rparr>)],
        events = [Print (Checking 1 (Finite (- 1))),
                  HttpGet (base_url @ ''SP0001''),
                  Print (NameBalance ''alice'' ''SP0001'' (Finite 0)),
                  Print (FoundQualifying ''alice'' ''SP0001'' (Finite 0)),
                  Print (FoundCount 1 (Finite (- 1)))]\<rparr>"
  by code_simp

text \<open>
  C6, amended. For an entry whose answer has status 200 and is a JSON object without a
  balance field no exception is raised: the balance is taken as \<^verbatim>\<open>'0'\<close>, that is 0.0
  STX, the balance line is printed, and the entry is recorded exactly when 0.0 is
  greater than the threshold (so it is left out for every threshold of 0 or more).
  A request that raises, a body that is not JSON and a balance that does not decode
  (an unparseable string among them) raise inside the \<^verbatim>\<open>try\<close> body: the iteration
  prints the error line, leaves the result as it was and ends normally, so none of
  these conditions leaves the batch.
\<close>

theorem missing_balance_is_zero_errors_are_skipped:
  "(requests_get w (base_url @ clean_address address) = (Returns response, w1)
      \<and> status_code response = 200 \<and> json response = Inr (JObject kvs)
      \<and> map_of kvs ''balance'' = None \<longrightarrow>
    loop_body requests_get min_balance i name address w q =
      \<lparr>world = w1,
       qualifying_addresses =
         (if py_gt (Finite 0) min_balance
          then AList.update name \<lparr>address_of = clean_address address, balance_of = Finite 0\<rparr> q
          else q),
       events = [HttpGet (base_url @ clean_address address),
                 Print (NameBalance name (clean_address address) (Finite 0))]
                @ (if py_gt (Finite 0) min_balance
                   then [Print (FoundQualifying name (clean_address address) (Finite 0))]
                   else [])
                @ rate_limit i\<rparr>)
   \<and> (requests_get w (base_url @ clean_address address) = (Raises e, w1) \<longrightarrow>
      loop_body requests_get min_balance i name address w q =
        \<lparr>world = w1, qualifying_addresses = q,
         events = [HttpGet (base_url @ clean_address address),
                   Print (ErrorProcessing name address e)]\<rparr>)
   \<and> (requests_get w (base_url @ clean_address address) = (Returns response, w1)
        \<and> status_code response = 200 \<and> json response = Inl e \<longrightarrow>
      loop_body requests_get min_balance i name address w q =
        \<lparr>world = w1, qualifying_addresses = q,
         events = [HttpGet (base_url @ clean_address address),
                   Print (ErrorProcessing name address e)]\<rparr>)
   \<and> (requests_get w (base_url @ clean_address address) = (Returns response, w1)
        \<and> status_code response = 200 \<and> json response = Inr data
        \<and> primary_balance_stx data = Inl e \<longrightarrow>
      loop_body requests_get min_balance i name address w q =
        \<lparr>world = w1, qualifying_addresses = q,
         events = [HttpGet (base_url @ clean_address address),
                   Print (ErrorProcessing name address e)]\<rparr>)
   \<and> (\<not> startswith s ''0x'' \<and> int_of_str s 10 = Inl e \<longrightarrow>
      primary_balance_stx (JObject [(''balance'', JString s)]) = Inl e)
   \<and> (\<not> py_gt (Finite 0) min_balance) = (min_balance \<in> {PosInf, NaN} \<union> {Finite x |x. 0 \<le> x})"
proof (intro conjI impI)
  have zero: "int_of_str ''0'' 10 = Inr 0" by code_simp
  assume "requests_get w (base_url @ clean_address address) = (Returns response, w1)
      \<and> status_code response = 200 \<and> json response = Inr (JObject kvs)
      \<and> map_of kvs ''balance'' = None"
  then show "loop_body requests_get min_balance i name address w q =
      \<lparr>world = w1,
       qualifying_addresses =
         (if py_gt (Finite 0) min_balance
          then AList.update name \<lparr>address_of = clean_address address, balance_of = Finite 0\<rparr> q
          else q),
       events = [HttpGet (base_url @ clean_address address),
                 Print (NameBalance name (clean_address address) (Finite 0))]
                @ (if py_gt (Finite 0) min_balance
                   then [Print (FoundQualifying name (clean_address address) (Finite 0))]
                   else [])
                @ rate_limit i\<rparr>"
    by (simp add: loop_body_def try_body_def Let_def primary_balance_stx_def startswith_def
        zero true_div_def)
next
  assume "requests_get w (base_url @ clean_address address) = (Raises e, w1)"
  then show "loop_body requests_get min_balance i name address w q =
        \<lparr>world = w1, qualifying_addresses = q,
         events = [HttpGet (base_url @ clean_address address),
                   Print (ErrorProcessing name address e)]\<rparr>"
    by (simp add: loop_body_def try_body_def Let_def)
next
  assume "requests_get w (base_url @ clean_address address) = (Returns response, w1)
        \<and> status_code response = 200 \<and> json response = Inl e"
  then show "loop_body requests_get min_balance i name address w q =
        \<lparr>world = w1, qualifying_addresses = q,
         events = [HttpGet (base_url @ clean_address address),
                   Print (ErrorProcessing name address e)]\<rparr>"
    by (simp add: loop_body_def try_body_def Let_def)
next
  assume "requests_get w (base_url @ clean_address address) = (Returns response, w1)
        \<and> status_code response = 200 \<and> json response = Inr data
        \<and> primary_balance_stx data = Inl e"
  then show "loop_body requests_get min_balance i name address w q =
        \<lparr>world = w1, qualifying_addresses = q,
         events = [HttpGet (base_url @ clean_address address),
                   Print (ErrorProcessing name address e)]\<rparr>"
    by (simp add: loop_body_def try_body_def Let_def)
next
  assume "\<not> startswith s ''0x'' \<and> int_of_str s 10 = Inl e"
  then show "primary_balance_stx (JObject [(''balance'', JString s)]) = Inl e"
    by (simp add: primary_balance_stx_def)
next
  show "(\<not> py_gt (Finite 0) min_balance)
      = (min_balance \<in> {PosInf, NaN} \<union> {Finite x |x. 0 \<le> x})"
    by (cases min_balance) auto
qed

theorem missing_balance_is_zero_errors_are_skipped_witness:
  "loop_body missing_api (Finite 5) 0 ''alice'' ''SP0001'' 0 []
     = \<lparr>world = 1, qualifying_addresses = [],
        events = [HttpGet (base_url @ ''SP0001''),
                  Print (NameBalance ''alice'' ''SP0001'' (Finite 0))]\<rparr>
   \<and> loop_body missing_api (Finite 5) 0 ''bob'' ''SP0002'' 1 []
     = \<lparr>world = 2, qualifying_addresses = [],
        events = [HttpGet (base_url @ ''SP0002''),
                  Print (ErrorProcessing ''bob'' ''SP0002'' RequestError)]\<rparr>
   \<and> primary_balance_stx (JObject [(''balance'', JString ''five'')]) = Inl ValueError"
proof -
  have c1: "clean_address ''SP0001'' = ''SP0001''" by code_simp
  have c2: "clean_address ''SP0002'' = ''SP0002''" by code_simp
  have p: "missing_api 0 (base_url @ clean_address ''SP0001'')
        = (Returns \<lparr>status_code = 200, json = Inr (JObject [])\<rparr>, 1)
      \<and> status_code \<lparr>status_code = 200, json = Inr (JObject [])\<rparr> = 200
      \<and> json \<lparr>status_code = 200, json = Inr (JObject [])\<rparr> = Inr (JObject [])
      \<and> map_of ([] :: (string \<times> json_value) list) ''balance'' = None"
    by (simp add: missing_api_def scripted_get_def ok_json_def)
  have r: "missing_api 1 (base_url @ clean_address ''SP0002'') = (Raises RequestError, 2)"
    by (simp add: missing_api_def scripted_get_def)
  have u: "\<not> startswith ''five'' ''0x'' \<and> int_of_str ''five'' 10 = Inl ValueError"
    by code_simp
  from missing_balance_is_zero_errors_are_skipped [where requests_get = missing_api and w = 0
      and address = "''SP0001''" and i = 0 and name = "''alice''" and q = "[]"
      and min_balance = "Finite 5" and kvs = "[]"
      and response = "\<lparr>status_code = 200, json = Inr (JObject [])\<rparr>" and ?w1.0 = 1,
      THEN conjunct1, rule_format, OF p]
    missing_balance_is_zero_errors_are_skipped [where requests_get = missing_api and w = 1
      and address = "''SP0002''" and i = 0 and name = "''bob''" and q = "[]"
      and min_balance = "Finite 5" and e = RequestError and ?w1.0 = 2,
      THEN conjunct2, THEN conjunct1, rule_format, OF r]
    missing_balance_is_zero_errors_are_skipped [where s = "''five''" and e = ValueError,
      THEN conjunct2, THEN conjunct2, THEN conjunct2, THEN conjunct2, THEN conjunct1,
      rule_format, OF u]
  show ?thesis by (simp add: c1 c2 rate_limit_def)
qed




text \<open>
  C8, as the claim states it, fails: for an input file whose bytes do not decode, so
  that its contents are not valid JSON, \<^verbatim>\<open>main\<close> prints no message and does not
  return; \<^verbatim>\<open>UnicodeDecodeError\<close>, which neither handler of lines 111 to 117 names,
  leaves it.
\<close>

theorem invalid_input_reported_counterexample:
  "main scenario_api 0 (load_input Undecodable) None = (Some UnicodeDecodeError, 0, [])"
  by (simp add: main_def)

text \<open>
  C8, amended. When the input file is absent, or holds text that the JSON parser
  rejects with \<^verbatim>\<open>json.JSONDecodeError\<close>, \<^verbatim>\<open>main\<close> prints the message of that condition
  and returns. When opening or parsing fails with another exception (bytes that do
  not decode, a document nested too deeply, a file that cannot be opened), \<^verbatim>\<open>main\<close>
  prints nothing and that exception leaves it. Whenever the file does not give a
  mapping, the outside world is as it was (no request was issued) and no file was
  written.
\<close>

theorem load_failure_reported_or_raised:
  "main requests_get w (load_input Absent) write_error
     = (None, w, [Print FileNotFoundMessage, Print PleaseCreateMessage])
   \<and> main requests_get w (load_input Malformed) write_error
     = (None, w, [Print InvalidJSONMessage])
   \<and> main requests_get w (load_input Undecodable) write_error
     = (Some UnicodeDecodeError, w, [])
   \<and> main requests_get w (load_input TooDeep) write_error = (Some RecursionError, w, [])
   \<and> main requests_get w (load_input Unreadable) write_error = (Some OSError, w, [])
   \<and> (e \<noteq> FileNotFoundError \<and> e \<noteq> JSONDecodeError \<longrightarrow>
        main requests_get w (Inl e) write_error = (Some e, w, []))
   \<and> ((\<forall>address_dict. f \<noteq> Holds address_dict) \<longrightarrow>
        fst (snd (main requests_get w (load_input f) write_error)) = w
        \<and> requests_of (snd (snd (main requests_get w (load_input f) write_error))) = []
        \<and> writes_of (snd (snd (main requests_get w (load_input f) write_error))) = [])"
proof (intro conjI impI)
  assume "\<forall>address_dict. f \<noteq> Holds address_dict"
  then show "fst (snd (main requests_get w (load_input f) write_error)) = w"
    by (cases f) (simp_all add: main_def)
next
  assume "\<forall>address_dict. f \<noteq> Holds address_dict"
  then show "requests_of (snd (snd (main requests_get w (load_input f) write_error))) = []"
    by (cases f) (simp_all add: main_def)
next
  assume "\<forall>address_dict. f \<noteq> Holds address_dict"
  then show "writes_of (snd (snd (main requests_get w (load_input f) write_error))) = []"
    by (cases f) (simp_all add: main_def)
qed (simp_all add: main_def)

theorem load_failure_reported_or_raised_witness:
  "main scenario_api 0 (load_input Absent) None
     = (None, 0, [Print FileNotFoundMessage, Print PleaseCreateMessage])
   \<and> main scenario_api 0 (load_input Malformed) None = (None, 0, [Print InvalidJSONMessage])
   \<and> main scenario_api 0 (Inl RecursionError) None = (Some RecursionError, 0, [])
   \<and> requests_of (snd (snd (main scenario_api 0 (load_input Undecodable) None))) = []
   \<and> writes_of (snd (snd (main scenario_api 0 (load_input Undecodable) None))) = []
   \<and> requests_of (snd (snd (main scenario_api 0 (load_input (Holds scenario_dict)) None)))
     = [base_url @ ''SP0001'', base_url @ ''SP0002'']
   \<and> writes_of (snd (snd (main scenario_api 0 (load_input (Holds scenario_dict)) None)))
     = [''qualifying_addresses.json'']"
proof -
  note t = load_failure_reported_or_raised [of scenario_api 0 None RecursionError Undecodable]
  have e: "RecursionError \<noteq> FileNotFoundError \<and> RecursionError \<noteq> JSONDecodeError" by simp
  have f: "\<forall>address_dict. Undecodable \<noteq> Holds address_dict" by simp
  have run: "requests_of (snd (snd (main scenario_api 0 (load_input (Holds scenario_dict)) None)))
     = [base_url @ ''SP0001'', base_url @ ''SP0002'']
   \<and> writes_of (snd (snd (main scenario_api 0 (load_input (Holds scenario_dict)) None)))
     = [''qualifying_addresses.json'']"
    by code_simp
  from t e f run show ?thesis by blast
qed

text \<open>
  C9. The module's last statement reads the name \<^verbatim>\<open>_name_\<close>, which is bound nowhere:
  whatever the module is run as, it raises \<^verbatim>\<open>NameError\<close> and \<^verbatim>\<open>main\<close> is not called.
\<close>

theorem script_raises_NameError:
  "run_module requests_get w loaded write_error run_name = (Some NameError, w, [])"
  by (simp add: run_module_def lookup_name_def module_globals_def builtin_names_def)

theorem script_raises_NameError_witness:
  "run_module scenario_api 0 (Inr scenario_dict) None ''__main__'' = (Some NameError, 0, [])"
  using script_raises_NameError [of scenario_api 0 "Inr scenario_dict" None "''__main__''"]
  by simp



end
